theory Spec2Isabelle
  imports Main "HOL-Library.Word"
begin

unbundle bit_operations_syntax

section \<open>CloudSchedule.h: schedule descriptor, evaluator and local/cloud tracker\<close>

text \<open>
  The header declares two classes. \<open>Schedule\<close> holds four \<open>unsigned int\<close> fields and
  decides with \<open>isActive\<close> whether the schedule is active at the current time.
  \<open>CloudSchedule\<close> keeps a local and a cloud \<open>Schedule\<close> and moves values between them.
  \<open>unsigned int\<close> is 32 bits wide on the boards the library targets, so it is a
  \<open>32 word\<close> here: \<open>+\<close>, \<open>-\<close> and \<open>*\<close> wrap, \<open>\<le>\<close> and \<open><\<close> compare unsigned.
\<close>

type_synonym u32 = "32 word"

subsection \<open>Constants\<close>

definition SCHEDULE_UNIT_MASK :: u32 where "SCHEDULE_UNIT_MASK = 0xC0000000"
definition SCHEDULE_UNIT_SHIFT :: nat where "SCHEDULE_UNIT_SHIFT = 30"
definition SCHEDULE_TYPE_MASK :: u32 where "SCHEDULE_TYPE_MASK = 0x3C000000"
definition SCHEDULE_TYPE_SHIFT :: nat where "SCHEDULE_TYPE_SHIFT = 26"
definition SCHEDULE_MONTH_MASK :: u32 where "SCHEDULE_MONTH_MASK = 0x0000FF00"
definition SCHEDULE_MONTH_SHIFT :: nat where "SCHEDULE_MONTH_SHIFT = 8"
definition SCHEDULE_REP_MASK :: u32 where "SCHEDULE_REP_MASK = 0x03FFFFFF"
definition SCHEDULE_WEEK_MASK :: u32 where "SCHEDULE_WEEK_MASK = 0x000000FF"
definition SCHEDULE_DAY_MASK :: u32 where "SCHEDULE_DAY_MASK = 0x000000FF"
definition SCHEDULE_ONE_SHOT :: u32 where "SCHEDULE_ONE_SHOT = 0xFFFFFFFF"

text \<open>
  Modelled from the spec: the macros \<open>SECONDS\<close>, \<open>MINUTES\<close>, \<open>HOURS\<close> and \<open>DAYS\<close> come from
  \<open>AIoTC_Const.h\<close>, which is not among the sources. The spec gives the number of seconds
  of each unit: Seconds 1, Minutes 60, Hours 3600, Days 86400.
\<close>

definition SECONDS :: u32 where "SECONDS = 1"
definition MINUTES :: u32 where "MINUTES = 60"
definition HOURS :: u32 where "HOURS = 3600"
definition DAYS :: u32 where "DAYS = 86400"

subsection \<open>Enumerations\<close>

text \<open>
  \<open>enum class ScheduleUnit : int\<close> and \<open>enum class ScheduleType : int\<close> have the
  underlying type \<open>int\<close>, and \<open>static_cast\<close> from the shifted mask can produce any value
  of the field, named or not (the type field is four bits wide and names five values).
  An enumeration value is therefore its integer.
\<close>

type_synonym ScheduleUnit = int
type_synonym ScheduleType = int

definition Seconds :: ScheduleUnit where "Seconds = 0"
definition Minutes :: ScheduleUnit where "Minutes = 1"
definition Hours :: ScheduleUnit where "Hours = 2"
definition Days :: ScheduleUnit where "Days = 3"

definition OneShot :: ScheduleType where "OneShot = 0"
definition FixedDelta :: ScheduleType where "FixedDelta = 1"
definition Weekly :: ScheduleType where "Weekly = 2"
definition Monthly :: ScheduleType where "Monthly = 3"
definition Yearly :: ScheduleType where "Yearly = 4"

subsection \<open>The C library's broken-down time\<close>

text \<open>
  \<open>gmtime\<close> belongs to the C library. The functions that call it take it as the
  parameter \<open>gm\<close>, from the \<open>unsigned int\<close> time they pass (converted to \<open>time_t\<close> at the
  call) to the three fields of \<open>struct tm\<close> that the header reads, each an \<open>int\<close>:
  \<open>tm_wday\<close> (days since Sunday, 0 to 6), \<open>tm_mday\<close> (1 to 31) and \<open>tm_mon\<close> (0 to 11).
\<close>

record tm =
  tm_wday :: int
  tm_mday :: int
  tm_mon :: int

text \<open>
  \<open>gmtime_utc\<close> is the instance used to evaluate the functions at concrete times:
  seconds since 1970-01-01 00:00:00 UTC without leap seconds, in the proleptic Gregorian
  calendar. 1970-01-01 was a Thursday.
\<close>

definition civil_doe :: "int \<Rightarrow> int" where
  "civil_doe days = (days + 719468) mod 146097"

definition civil_yoe :: "int \<Rightarrow> int" where
  "civil_yoe doe = (doe - doe div 1460 + doe div 36524 - doe div 146096) div 365"

definition civil_doy :: "int \<Rightarrow> int \<Rightarrow> int" where
  "civil_doy doe yoe = doe - (365 * yoe + yoe div 4 - yoe div 100)"

definition civil_mp :: "int \<Rightarrow> int" where
  "civil_mp doy = (5 * doy + 2) div 153"

definition civil_mday :: "int \<Rightarrow> int \<Rightarrow> int" where
  "civil_mday doy mp = doy - (153 * mp + 2) div 5 + 1"

definition civil_mon :: "int \<Rightarrow> int" where
  "civil_mon mp = (if mp < 10 then mp + 2 else mp - 10)"

definition gmtime_days :: "int \<Rightarrow> tm" where
  "gmtime_days days =
     \<lparr>tm_wday = (days + 4) mod 7,
      tm_mday = civil_mday (civil_doy (civil_doe days) (civil_yoe (civil_doe days)))
                  (civil_mp (civil_doy (civil_doe days) (civil_yoe (civil_doe days)))),
      tm_mon = civil_mon (civil_mp (civil_doy (civil_doe days) (civil_yoe (civil_doe days))))\<rparr>"

definition gmtime_utc :: "u32 \<Rightarrow> tm" where
  "gmtime_utc t = gmtime_days (uint t div 86400)"

subsection \<open>class Schedule\<close>

record Schedule =
  frm :: u32
  to :: u32
  len :: u32
  msk :: u32

text \<open>
  \<open>x % 0\<close> is undefined behaviour in C++ (a trap on targets with a hardware divider).
  The model returns it as an error value instead of HOL's \<open>x mod 0 = x\<close>.
\<close>

datatype error = ModuloByZero

definition getScheduleUnit :: "u32 \<Rightarrow> ScheduleUnit" where
  "getScheduleUnit m = uint (drop_bit SCHEDULE_UNIT_SHIFT (m AND SCHEDULE_UNIT_MASK))"

definition getScheduleType :: "u32 \<Rightarrow> ScheduleType" where
  "getScheduleType m = uint (drop_bit SCHEDULE_TYPE_SHIFT (m AND SCHEDULE_TYPE_MASK))"

definition getScheduleRepetition :: "u32 \<Rightarrow> u32" where
  "getScheduleRepetition m = m AND SCHEDULE_REP_MASK"

definition getScheduleWeekMask :: "u32 \<Rightarrow> u32" where
  "getScheduleWeekMask m = m AND SCHEDULE_WEEK_MASK"

definition getScheduleDay :: "u32 \<Rightarrow> u32" where
  "getScheduleDay m = m AND SCHEDULE_DAY_MASK"

definition getScheduleMonth :: "u32 \<Rightarrow> u32" where
  "getScheduleMonth m = drop_bit SCHEDULE_MONTH_SHIFT (m AND SCHEDULE_MONTH_MASK)"

definition isScheduleOneShot :: "u32 \<Rightarrow> bool" where
  "isScheduleOneShot m = (if getScheduleType m = OneShot then True else False)"

definition isScheduleFixed :: "u32 \<Rightarrow> bool" where
  "isScheduleFixed m = (if getScheduleType m = FixedDelta then True else False)"

definition isScheduleWeekly :: "u32 \<Rightarrow> bool" where
  "isScheduleWeekly m = (if getScheduleType m = Weekly then True else False)"

definition isScheduleMonthly :: "u32 \<Rightarrow> bool" where
  "isScheduleMonthly m = (if getScheduleType m = Monthly then True else False)"

definition isScheduleYearly :: "u32 \<Rightarrow> bool" where
  "isScheduleYearly m = (if getScheduleType m = Yearly then True else False)"

definition isScheduleInSeconds :: "u32 \<Rightarrow> bool" where
  "isScheduleInSeconds m =
     (if isScheduleFixed m then (if getScheduleUnit m = Seconds then True else False)
      else False)"

definition isScheduleInMinutes :: "u32 \<Rightarrow> bool" where
  "isScheduleInMinutes m =
     (if isScheduleFixed m then (if getScheduleUnit m = Minutes then True else False)
      else False)"

definition isScheduleInHours :: "u32 \<Rightarrow> bool" where
  "isScheduleInHours m =
     (if isScheduleFixed m then (if getScheduleUnit m = Hours then True else False)
      else False)"

definition isScheduleInDays :: "u32 \<Rightarrow> bool" where
  "isScheduleInDays m =
     (if isScheduleFixed m then (if getScheduleUnit m = Days then True else False)
      else False)"

text \<open>
  \<open>1 << ptm->tm_wday\<close> shifts the \<open>int\<close> 1 and converts the result to \<open>unsigned int\<close>.
  For the weekdays 0 to 6 that \<open>gmtime\<close> yields this is the word with that single bit.
\<close>

definition getCurrentDayMask :: "(u32 \<Rightarrow> tm) \<Rightarrow> u32 \<Rightarrow> u32" where
  "getCurrentDayMask gm t = push_bit (nat (tm_wday (gm t))) 1"

definition getCurrentDay :: "(u32 \<Rightarrow> tm) \<Rightarrow> u32 \<Rightarrow> u32" where
  "getCurrentDay gm t = word_of_int (tm_mday (gm t))"

definition getCurrentMonth :: "(u32 \<Rightarrow> tm) \<Rightarrow> u32 \<Rightarrow> u32" where
  "getCurrentMonth gm t = word_of_int (tm_mon (gm t))"

definition checkSchedulePeriod :: "u32 \<Rightarrow> u32 \<Rightarrow> u32 \<Rightarrow> bool" where
  "checkSchedulePeriod now f t =
     (if now \<ge> f \<and> (now < t \<or> t = 0) then True else False)"

text \<open>
  The weekly, monthly and yearly blocks return true from inside their inner test and
  otherwise fall through to the blocks after them and to the final \<open>return false\<close>.
\<close>

definition checkScheduleMask :: "(u32 \<Rightarrow> tm) \<Rightarrow> u32 \<Rightarrow> u32 \<Rightarrow> bool" where
  "checkScheduleMask gm now m =
     (if isScheduleFixed m \<or> isScheduleOneShot m then True
      else if isScheduleWeekly m \<and>
              (let currentDayMask = getCurrentDayMask gm now;
                   scheduleMask = getScheduleWeekMask m
               in (currentDayMask AND scheduleMask) \<noteq> 0) then True
      else if isScheduleMonthly m \<and>
              (let currentDay = getCurrentDay gm now;
                   scheduleDay = getScheduleDay m
               in currentDay = scheduleDay) then True
      else if isScheduleYearly m \<and>
              (let currentDay = getCurrentDay gm now;
                   scheduleDay = getScheduleDay m;
                   currentMonth = getCurrentMonth gm now;
                   scheduleMonth = getScheduleMonth m
               in currentDay = scheduleDay \<and> currentMonth = scheduleMonth) then True
      else False)"

definition getScheduleDelta :: "u32 \<Rightarrow> u32" where
  "getScheduleDelta m =
     (if isScheduleInSeconds m then SECONDS * getScheduleRepetition m
      else if isScheduleInMinutes m then MINUTES * getScheduleRepetition m
      else if isScheduleInHours m then HOURS * getScheduleRepetition m
      else if isScheduleInDays m then DAYS * getScheduleRepetition m
      else if isScheduleWeekly m \<or> isScheduleMonthly m \<or> isScheduleYearly m then DAYS
      else SCHEDULE_ONE_SHOT)"

text \<open>
  \<open>Schedule::isActive\<close> reads the current time with \<open>getLocalTime()\<close> of the
  \<open>TimeService\<close> base class; the model receives that value as \<open>now\<close>. The remainder is
  taken only when both checks pass, so only then can the divisor be zero.
\<close>

definition isActive :: "(u32 \<Rightarrow> tm) \<Rightarrow> Schedule \<Rightarrow> u32 \<Rightarrow> error + bool" where
  "isActive gm s now =
     (if checkSchedulePeriod now (frm s) (to s) then
        if checkScheduleMask gm now (msk s) then
          (let delta = getScheduleDelta (msk s)
           in if delta = 0 then Inl ModuloByZero
              else if (max now (frm s) - min now (frm s)) mod delta \<le> len s then Inr True
              else Inr False)
        else Inr False
      else Inr False)"

text \<open>
  \<open>operator=\<close>, \<open>operator==\<close> and \<open>operator!=\<close> of \<open>Schedule\<close>.
\<close>

definition Schedule_assign :: "Schedule \<Rightarrow> Schedule \<Rightarrow> Schedule" where
  "Schedule_assign this aSchedule =
     this\<lparr>frm := frm aSchedule, to := to aSchedule, len := len aSchedule,
          msk := msk aSchedule\<rparr>"

definition Schedule_eq :: "Schedule \<Rightarrow> Schedule \<Rightarrow> bool" where
  "Schedule_eq this aSchedule =
     (frm this = frm aSchedule \<and> to this = to aSchedule \<and> len this = len aSchedule
      \<and> msk this = msk aSchedule)"

definition Schedule_neq :: "Schedule \<Rightarrow> Schedule \<Rightarrow> bool" where
  "Schedule_neq this aSchedule = (\<not> Schedule_eq this aSchedule)"

subsection \<open>class CloudSchedule\<close>

text \<open>
  \<open>CloudSchedule\<close> derives from \<open>Property\<close>, whose code is not in the header. The state
  of that base class is the field \<open>property\<close>, of a type \<open>'p\<close> left open, and the three
  members of it that the header calls are parameters of the functions that call them:
  \<open>updateLocalTimestamp\<close> changes the base state, \<open>appendAttribute\<close> writes one value
  to an encoder \<open>'e\<close> and returns a \<open>CborError\<close>, and \<open>setAttribute\<close> receives a field
  by reference and a decoder \<open>'d\<close> and returns the field's new value. \<open>_value\<close> and
  \<open>_cloud_value\<close> are the fields \<open>local_value\<close> and \<open>cloud_value\<close>.
\<close>

record 'p CloudSchedule =
  property :: 'p
  local_value :: Schedule
  cloud_value :: Schedule

text \<open>
  \<open>CborError\<close> is the CBOR library's enumeration. The header names \<open>CborNoError\<close>;
  every other value is one of the library's error codes.
\<close>

datatype CborError = CborNoError | CborErrorCode nat

text \<open>The two constructors; \<open>p\<close> is the base class as its own constructor leaves it.\<close>

definition CloudSchedule_default :: "'p \<Rightarrow> 'p CloudSchedule" where
  "CloudSchedule_default p =
     \<lparr>property = p,
      local_value = \<lparr>frm = 0, to = 0, len = 0, msk = 0\<rparr>,
      cloud_value = \<lparr>frm = 0, to = 0, len = 0, msk = 0\<rparr>\<rparr>"

definition CloudSchedule_init :: "'p \<Rightarrow> u32 \<Rightarrow> u32 \<Rightarrow> u32 \<Rightarrow> u32 \<Rightarrow> 'p CloudSchedule" where
  "CloudSchedule_init p f t l m =
     \<lparr>property = p,
      local_value = \<lparr>frm = f, to = t, len = l, msk = m\<rparr>,
      cloud_value = \<lparr>frm = f, to = t, len = l, msk = m\<rparr>\<rparr>"

definition isDifferentFromCloud :: "'p CloudSchedule \<Rightarrow> bool" where
  "isDifferentFromCloud c = Schedule_neq (local_value c) (cloud_value c)"

text \<open>\<open>CloudSchedule::operator=(Schedule)\<close>, the assignment of a new local value.\<close>

definition CloudSchedule_assign ::
  "('p \<Rightarrow> 'p) \<Rightarrow> 'p CloudSchedule \<Rightarrow> Schedule \<Rightarrow> 'p CloudSchedule" where
  "CloudSchedule_assign updateLocalTimestamp c aSchedule =
     (let c1 = c\<lparr>local_value := (local_value c)\<lparr>frm := frm aSchedule\<rparr>\<rparr>;
          c2 = c1\<lparr>local_value := (local_value c1)\<lparr>to := to aSchedule\<rparr>\<rparr>;
          c3 = c2\<lparr>local_value := (local_value c2)\<lparr>len := len aSchedule\<rparr>\<rparr>;
          c4 = c3\<lparr>local_value := (local_value c3)\<lparr>msk := msk aSchedule\<rparr>\<rparr>
      in c4\<lparr>property := updateLocalTimestamp (property c4)\<rparr>)"

definition getCloudValue :: "'p CloudSchedule \<Rightarrow> Schedule" where
  "getCloudValue c = cloud_value c"

definition getValue :: "'p CloudSchedule \<Rightarrow> Schedule" where
  "getValue c = local_value c"

definition CloudSchedule_isActive :: "(u32 \<Rightarrow> tm) \<Rightarrow> 'p CloudSchedule \<Rightarrow> u32 \<Rightarrow> error + bool" where
  "CloudSchedule_isActive gm c now = isActive gm (local_value c) now"

definition fromCloudToLocal :: "'p CloudSchedule \<Rightarrow> 'p CloudSchedule" where
  "fromCloudToLocal c = c\<lparr>local_value := Schedule_assign (local_value c) (cloud_value c)\<rparr>"

definition fromLocalToCloud :: "'p CloudSchedule \<Rightarrow> 'p CloudSchedule" where
  "fromLocalToCloud c = c\<lparr>cloud_value := Schedule_assign (cloud_value c) (local_value c)\<rparr>"

text \<open>
  \<open>CHECK_CBOR(expr)\<close> returns from the enclosing function with the error of \<open>expr\<close> when
  it is not \<open>CborNoError\<close>, so a failed append ends \<open>appendAttributesToCloud\<close> there.
\<close>

definition appendAttributesToCloud ::
  "(u32 \<Rightarrow> 'e \<Rightarrow> CborError \<times> 'e) \<Rightarrow> 'p CloudSchedule \<Rightarrow> 'e \<Rightarrow> CborError \<times> 'e" where
  "appendAttributesToCloud appendAttribute c e0 =
     (case appendAttribute (frm (local_value c)) e0 of (r1, e1) \<Rightarrow>
      if r1 \<noteq> CborNoError then (r1, e1) else
      case appendAttribute (to (local_value c)) e1 of (r2, e2) \<Rightarrow>
      if r2 \<noteq> CborNoError then (r2, e2) else
      case appendAttribute (len (local_value c)) e2 of (r3, e3) \<Rightarrow>
      if r3 \<noteq> CborNoError then (r3, e3) else
      case appendAttribute (msk (local_value c)) e3 of (r4, e4) \<Rightarrow>
      if r4 \<noteq> CborNoError then (r4, e4) else (CborNoError, e4))"

definition setAttributesFromCloud ::
  "(u32 \<Rightarrow> 'd \<Rightarrow> u32 \<times> 'd) \<Rightarrow> 'p CloudSchedule \<Rightarrow> 'd \<Rightarrow> 'p CloudSchedule \<times> 'd" where
  "setAttributesFromCloud setAttribute c d0 =
     (case setAttribute (frm (cloud_value c)) d0 of (v1, d1) \<Rightarrow>
      case setAttribute (to (cloud_value c)) d1 of (v2, d2) \<Rightarrow>
      case setAttribute (len (cloud_value c)) d2 of (v3, d3) \<Rightarrow>
      case setAttribute (msk (cloud_value c)) d3 of (v4, d4) \<Rightarrow>
      (c\<lparr>cloud_value := (cloud_value c)\<lparr>frm := v1, to := v2, len := v3, msk := v4\<rparr>\<rparr>, d4))"

subsection \<open>The capabilities of the base class, as the spec describes them\<close>

text \<open>
  Modelled from the spec: \<open>Property::updateLocalTimestamp\<close> is not among the sources.
  The spec describes a last-modification timestamp that is marked as updated whenever the
  local value is reassigned; the model stores the current time \<open>t\<close> of the time source
  in it.
\<close>

record Property =
  last_local_change_timestamp :: u32

definition updateLocalTimestamp :: "u32 \<Rightarrow> Property \<Rightarrow> Property" where
  "updateLocalTimestamp t p = p\<lparr>last_local_change_timestamp := t\<rparr>"

text \<open>
  Modelled from the spec: \<open>appendAttribute\<close> is not among the sources. The spec describes
  \<open>appendScalar(value)\<close>, which appends one scalar to the outbound attribute sequence; the
  sequence is a list and an append to it does not fail.
\<close>

definition appendScalar :: "u32 \<Rightarrow> u32 list \<Rightarrow> CborError \<times> u32 list" where
  "appendScalar v out = (CborNoError, out @ [v])"

text \<open>
  Modelled from the spec: \<open>setAttribute\<close> is not among the sources. The spec describes
  \<open>readScalar()\<close>, which reads the next scalar of the inbound sequence. The spec does not
  say what a read from an exhausted sequence gives; the model leaves the field as it is.
\<close>

definition readScalar :: "u32 \<Rightarrow> u32 list \<Rightarrow> u32 \<times> u32 list" where
  "readScalar old inp = (case inp of [] \<Rightarrow> (old, []) | v # rest \<Rightarrow> (v, rest))"

section \<open>Decoding the mask\<close>

text \<open>The unit field is two bits wide, so every mask decodes to one of the four units.\<close>

lemma uint_drop_bit_30_lt: "uint (drop_bit 30 (w :: u32)) < 4"
proof -
  have "unat w < 2 ^ 32"
    using unsigned_less [of w, where ?'a = nat] by simp
  then have "unat w div 2 ^ 30 < 4"
    by (simp add: less_mult_imp_div_less)
  then have "unat (drop_bit 30 w) < 4"
    by (simp only: unat_drop_bit_eq drop_bit_eq_div [where ?'a = nat])
  then show ?thesis
    unfolding uint_nat by linarith
qed

lemma getScheduleUnit_cases:
  "getScheduleUnit m = Seconds \<or> getScheduleUnit m = Minutes
   \<or> getScheduleUnit m = Hours \<or> getScheduleUnit m = Days"
proof -
  have "0 \<le> getScheduleUnit m"
    by (simp add: getScheduleUnit_def)
  moreover have "getScheduleUnit m < 4"
    unfolding getScheduleUnit_def SCHEDULE_UNIT_SHIFT_def by (rule uint_drop_bit_30_lt)
  ultimately show ?thesis
    unfolding Seconds_def Minutes_def Hours_def Days_def by arith
qed

lemmas field_defs = getScheduleType_def getScheduleUnit_def getScheduleRepetition_def
  SCHEDULE_TYPE_SHIFT_def SCHEDULE_TYPE_MASK_def SCHEDULE_UNIT_SHIFT_def SCHEDULE_UNIT_MASK_def
  SCHEDULE_REP_MASK_def

section \<open>The evaluator\<close>

subsection \<open>A fixed delta of zero\<close>

lemma getScheduleDelta_fixed_zero:
  assumes "getScheduleType m = FixedDelta" and "getScheduleRepetition m = 0"
  shows "getScheduleDelta m = 0"
  using assms getScheduleUnit_cases [of m]
  by (auto simp add: getScheduleDelta_def isScheduleInSeconds_def isScheduleInMinutes_def
      isScheduleInHours_def isScheduleInDays_def isScheduleFixed_def)

lemma isActive_fixed_zero:
  assumes "getScheduleType (msk s) = FixedDelta" and "getScheduleRepetition (msk s) = 0"
    and "checkSchedulePeriod now (frm s) (to s)"
  shows "isActive gm s now = Inl ModuloByZero"
  using assms getScheduleDelta_fixed_zero [of "msk s"]
  by (simp add: isActive_def checkScheduleMask_def isScheduleFixed_def)

text \<open>
  Claim C1. The claim says that a FixedDelta schedule with repetition count 0 is inactive
  at every \<open>now\<close> inside the window and that no division by zero occurs. The code has no
  test for a zero delta: \<open>getScheduleDelta\<close> returns 0 and \<open>isActive\<close> evaluates
  \<open>% delta\<close> with it (\<open>isActive_fixed_zero\<close>). The theorem evaluates the code at the
  mask \<open>0x04000000\<close> (type FixedDelta, unit Seconds, repetition 0) with
  \<open>from = to = len = 0\<close> at \<open>now = 0\<close>: the result is the remainder by zero, not false.
\<close>

theorem C1_zero_repetition_divides_by_zero:
  "getScheduleType 0x04000000 = FixedDelta \<and> getScheduleRepetition 0x04000000 = 0
   \<and> checkSchedulePeriod 0 0 0
   \<and> isActive gm \<lparr>frm = 0, to = 0, len = 0, msk = 0x04000000\<rparr> 0 = Inl ModuloByZero"
proof -
  have t: "getScheduleType 0x04000000 = FixedDelta"
    by (simp add: field_defs FixedDelta_def)
  have r: "getScheduleRepetition 0x04000000 = 0"
    by (simp add: field_defs)
  have p: "checkSchedulePeriod 0 0 0"
    by (simp add: checkSchedulePeriod_def)
  show ?thesis
    using t r p isActive_fixed_zero [of "\<lparr>frm = 0, to = 0, len = 0, msk = 0x04000000\<rparr>" 0 gm]
    by simp
qed

subsection \<open>The schedule window\<close>

text \<open>
  Claim C2. Whenever the window check \<open>now >= from && (now < to || to == 0)\<close> fails,
  \<open>isActive(now)\<close> returns false. The upper bound is exclusive: at \<open>now = to\<close> with
  \<open>to\<close> not zero the schedule is not active. With \<open>to = 0\<close> the window has no upper
  bound: the window check passes exactly when \<open>now >= from\<close>.
\<close>

theorem C2_window_check:
  "(\<not> (now \<ge> frm s \<and> (now < to s \<or> to s = 0)) \<longrightarrow> isActive gm s now = Inr False)
   \<and> (to s \<noteq> 0 \<longrightarrow> isActive gm s (to s) = Inr False)
   \<and> checkSchedulePeriod now f 0 = (now \<ge> f)"
  by (auto simp add: isActive_def checkSchedulePeriod_def)

text \<open>
  The window from 100 to 200 at \<open>now = 200\<close>, and the open window from 100 at the
  largest time.
\<close>

theorem C2_window_check_witness:
  "\<not> ((200::u32) \<ge> 100 \<and> ((200::u32) < 200 \<or> (200::u32) = 0)) \<and> (200::u32) \<noteq> 0
   \<and> isActive gmtime_utc \<lparr>frm = 100, to = 200, len = 5, msk = 0\<rparr> 200 = Inr False
   \<and> checkSchedulePeriod 4294967295 100 0 = ((4294967295::u32) \<ge> 100)"
  using C2_window_check [where now = 200 and gm = gmtime_utc and f = 100
      and s = "\<lparr>frm = 100, to = 200, len = 5, msk = 0\<rparr>"]
    C2_window_check [where now = 4294967295 and gm = gmtime_utc and f = 100
      and s = "\<lparr>frm = 100, to = 200, len = 5, msk = 0\<rparr>"]
  by simp

text \<open>
  Claim C5. A descriptor with \<open>to\<close> not zero and \<open>from > to\<close> is never active: the window
  check fails for every \<open>now\<close>, so \<open>isActive\<close> returns false and takes no remainder.
\<close>

theorem C5_from_after_to_never_active:
  assumes "to s \<noteq> 0" and "frm s > to s"
  shows "isActive gm s now = Inr False"
proof -
  have "\<not> (now \<ge> frm s \<and> now < to s)"
    using assms(2) by auto
  then have "\<not> checkSchedulePeriod now (frm s) (to s)"
    using assms(1) by (simp add: checkSchedulePeriod_def)
  then show ?thesis
    by (simp add: isActive_def)
qed

text \<open>The window from 200 to 100 with the longest length, at \<open>now = 250\<close>.\<close>

theorem C5_from_after_to_never_active_witness:
  "(100::u32) \<noteq> 0 \<and> (200::u32) > 100
   \<and> isActive gmtime_utc \<lparr>frm = 200, to = 100, len = 4294967295, msk = 0\<rparr> 250 = Inr False"
  using C5_from_after_to_never_active [where gm = gmtime_utc and now = 250
      and s = "\<lparr>frm = 200, to = 100, len = 4294967295, msk = 0\<rparr>"]
  by simp

subsection \<open>Type values without a name\<close>

lemma named_types_below_5:
  "OneShot < 5 \<and> FixedDelta < 5 \<and> Weekly < 5 \<and> Monthly < 5 \<and> Yearly < 5"
  by (simp add: OneShot_def FixedDelta_def Weekly_def Monthly_def Yearly_def)

lemma checkScheduleMask_unnamed_type:
  assumes "5 \<le> getScheduleType m"
  shows "\<not> checkScheduleMask gm now m"
  using assms named_types_below_5
  by (auto simp add: checkScheduleMask_def isScheduleFixed_def isScheduleOneShot_def
      isScheduleWeekly_def isScheduleMonthly_def isScheduleYearly_def)

text \<open>
  Claim C10. When the four-bit type field of the mask (bits 29 to 26) holds 5 or more,
  \<open>checkScheduleMask\<close> matches none of its type predicates, and \<open>isActive(now)\<close> returns
  false for every \<open>now\<close>, whatever the window and the length.
\<close>

theorem C10_unnamed_type_never_active:
  assumes "5 \<le> getScheduleType (msk s)"
  shows "isActive gm s now = Inr False"
  using checkScheduleMask_unnamed_type [OF assms, of gm now]
  by (simp add: isActive_def)

text \<open>
  The mask \<open>0x14000000\<close> has type 5; the window is open and the length is the largest.
\<close>

theorem C10_unnamed_type_never_active_witness:
  "5 \<le> getScheduleType 0x14000000
   \<and> isActive gmtime_utc \<lparr>frm = 0, to = 0, len = 4294967295, msk = 0x14000000\<rparr> 1609718400
       = Inr False"
proof -
  have t: "5 \<le> getScheduleType (msk \<lparr>frm = 0, to = 0, len = 4294967295, msk = 0x14000000\<rparr>)"
    by (simp add: field_defs)
  show ?thesis
    using t C10_unnamed_type_never_active [OF t, where gm = gmtime_utc and now = 1609718400] by simp
qed

subsection \<open>One-shot schedules\<close>

lemma getScheduleDelta_OneShot:
  assumes "getScheduleType m = OneShot"
  shows "getScheduleDelta m = 0xFFFFFFFF"
  using assms
  by (simp add: getScheduleDelta_def isScheduleInSeconds_def isScheduleInMinutes_def
      isScheduleInHours_def isScheduleInDays_def isScheduleFixed_def isScheduleWeekly_def
      isScheduleMonthly_def isScheduleYearly_def SCHEDULE_ONE_SHOT_def
      OneShot_def FixedDelta_def Weekly_def Monthly_def Yearly_def)

lemma elapsed_in_window:
  assumes "checkSchedulePeriod now f t"
  shows "max now f - min now f = now - f"
proof -
  have "f \<le> now"
    using assms by (simp add: checkSchedulePeriod_def split: if_splits)
  then show ?thesis
    by (simp add: max_def min_def)
qed

lemma mod_sentinel:
  assumes "(x :: u32) \<noteq> 0xFFFFFFFF"
  shows "x mod 0xFFFFFFFF = x"
proof -
  have b: "unat x < 2 ^ 32"
    using unsigned_less [of x, where ?'a = nat] by simp
  have "unat x \<noteq> unat (0xFFFFFFFF :: u32)"
    using assms by (simp only: word_unat_eq_iff not_False_eq_True)
  then have "unat x < unat (0xFFFFFFFF :: u32)"
    using b by simp
  then have "x < 0xFFFFFFFF"
    by (simp only: word_less_nat_alt)
  then show ?thesis
    by (rule mod_word_less)
qed

text \<open>
  Claim C3, as amended. For every mask of type OneShot the delta is the sentinel
  \<open>0xFFFFFFFF\<close>, and for every \<open>now\<close> inside the window with \<open>now - from\<close> different
  from \<open>0xFFFFFFFF\<close>, \<open>isActive(now)\<close> is true if and only if \<open>now - from <= length\<close>.
\<close>

theorem C3_one_shot:
  assumes "getScheduleType (msk s) = OneShot"
  shows "getScheduleDelta (msk s) = 0xFFFFFFFF
    \<and> (checkSchedulePeriod now (frm s) (to s) \<and> now - frm s \<noteq> 0xFFFFFFFF
        \<longrightarrow> isActive gm s now = Inr (now - frm s \<le> len s))"
proof (intro conjI impI)
  show d: "getScheduleDelta (msk s) = 0xFFFFFFFF"
    using assms by (rule getScheduleDelta_OneShot)
  assume w: "checkSchedulePeriod now (frm s) (to s) \<and> now - frm s \<noteq> 0xFFFFFFFF"
  have m: "checkScheduleMask gm now (msk s)"
    using assms by (simp add: checkScheduleMask_def isScheduleOneShot_def)
  have e: "(max now (frm s) - min now (frm s)) mod 0xFFFFFFFF = now - frm s"
    using w elapsed_in_window [of now "frm s" "to s"] mod_sentinel [of "now - frm s"] by simp
  show "isActive gm s now = Inr (now - frm s \<le> len s)"
    using w m d e by (simp add: isActive_def)
qed

text \<open>A one-shot schedule from 100 of length 5, three and six seconds after its start.\<close>

theorem C3_one_shot_witness:
  "getScheduleType 0 = OneShot \<and> checkSchedulePeriod 103 100 0
   \<and> (103 :: u32) - 100 \<noteq> 0xFFFFFFFF
   \<and> getScheduleDelta 0 = 0xFFFFFFFF
   \<and> isActive gmtime_utc \<lparr>frm = 100, to = 0, len = 5, msk = 0\<rparr> 103 = Inr True
   \<and> isActive gmtime_utc \<lparr>frm = 100, to = 0, len = 5, msk = 0\<rparr> 106 = Inr False"
proof -
  have t: "getScheduleType (msk \<lparr>frm = 100, to = 0, len = 5, msk = 0\<rparr>) = OneShot"
    by (simp add: field_defs OneShot_def)
  have p: "checkSchedulePeriod 103 100 0" "checkSchedulePeriod 106 100 0"
    by (simp_all add: checkSchedulePeriod_def)
  show ?thesis
    using t p C3_one_shot [OF t, where gm = gmtime_utc and now = 103]
      C3_one_shot [OF t, where gm = gmtime_utc and now = 106]
    by simp
qed

text \<open>
  Claim C3 as stated fails where \<open>now - from\<close> is the sentinel itself: with \<open>from = 0\<close>,
  \<open>length = 0\<close> and no window end, at \<open>now = 0xFFFFFFFF\<close> the remainder is 0 and the
  schedule is active, although \<open>now - from\<close> exceeds the length.
\<close>

theorem C3_one_shot_counterexample:
  "getScheduleType 0 = OneShot \<and> checkSchedulePeriod 0xFFFFFFFF 0 0
   \<and> isActive gmtime_utc \<lparr>frm = 0, to = 0, len = 0, msk = 0\<rparr> 0xFFFFFFFF = Inr True
   \<and> \<not> ((0xFFFFFFFF :: u32) - 0 \<le> 0)"
  by (simp add: isActive_def checkSchedulePeriod_def checkScheduleMask_def
      isScheduleFixed_def isScheduleOneShot_def getScheduleDelta_def
      isScheduleInSeconds_def isScheduleInMinutes_def isScheduleInHours_def
      isScheduleInDays_def isScheduleWeekly_def isScheduleMonthly_def isScheduleYearly_def
      SCHEDULE_ONE_SHOT_def field_defs
      OneShot_def FixedDelta_def Weekly_def Monthly_def Yearly_def)

subsection \<open>A fixed delta of ten seconds\<close>

lemma checkScheduleMask_fixed:
  assumes "getScheduleType m = FixedDelta"
  shows "checkScheduleMask gm now m"
  using assms by (simp add: checkScheduleMask_def isScheduleFixed_def)

lemma ten_seconds_fields:
  "getScheduleType 0x0400000A = FixedDelta \<and> getScheduleUnit 0x0400000A = Seconds
   \<and> getScheduleRepetition 0x0400000A = 10"
  by (simp add: field_defs FixedDelta_def Seconds_def)

lemma ten_seconds_delta: "getScheduleDelta 0x0400000A = SECONDS * 10"
  using ten_seconds_fields
  by (simp add: getScheduleDelta_def isScheduleInSeconds_def isScheduleFixed_def)

lemma ten_seconds_isActive:
  "isActive gm \<lparr>frm = 0, to = 0, len = 2, msk = 0x0400000A\<rparr> now = Inr (now mod 10 \<le> 2)"
proof -
  have p: "checkSchedulePeriod now 0 0"
    by (simp add: checkSchedulePeriod_def)
  have m: "checkScheduleMask gm now 0x0400000A"
    using ten_seconds_fields by (simp add: checkScheduleMask_fixed)
  have e: "max now 0 - min now 0 = now"
    using elapsed_in_window [OF p] by simp
  show ?thesis
    using p m e ten_seconds_delta by (simp add: isActive_def SECONDS_def)
qed

text \<open>
  Claim C4. The mask \<open>0x0400000A\<close> is the FixedDelta schedule with unit Seconds and
  repetition 10. Its delta is the repetition times the seconds of the unit, with Seconds
  being 1, so 10. With \<open>from = 0\<close>, \<open>length = 2\<close> and no window end the schedule is active
  exactly when \<open>now mod 10 <= 2\<close>: at 0, 1, 2, 10, 11, 12, 20, 21 and 22, and not at
  3 to 9 and 13 to 19.
\<close>

theorem C4_fixed_delta_ten_seconds:
  "getScheduleType 0x0400000A = FixedDelta \<and> getScheduleUnit 0x0400000A = Seconds
   \<and> getScheduleRepetition 0x0400000A = 10
   \<and> getScheduleDelta 0x0400000A = SECONDS * 10 \<and> SECONDS = 1
   \<and> isActive gm \<lparr>frm = 0, to = 0, len = 2, msk = 0x0400000A\<rparr> now = Inr (now mod 10 \<le> 2)
   \<and> list_all (\<lambda>n. isActive gm \<lparr>frm = 0, to = 0, len = 2, msk = 0x0400000A\<rparr> n = Inr True)
         [0, 1, 2, 10, 11, 12, 20, 21, 22]
   \<and> list_all (\<lambda>n. isActive gm \<lparr>frm = 0, to = 0, len = 2, msk = 0x0400000A\<rparr> n = Inr False)
         [3, 4, 5, 6, 7, 8, 9, 13, 14, 15, 16, 17, 18, 19]"
  using ten_seconds_fields ten_seconds_delta
  by (simp add: ten_seconds_isActive SECONDS_def)

subsection \<open>Weekly schedules\<close>

lemma day_mask_and_iff: "(push_bit n 1 AND (w :: u32)) \<noteq> 0 \<longleftrightarrow> bit w n"
proof -
  have "push_bit n 1 AND w = w AND 2 ^ n"
    by (simp add: push_bit_of_1 and.commute)
  then show ?thesis
    by (simp add: and_exp_eq_0_iff_not_bit)
qed

lemma getCurrentDayMask_and_iff:
  "(getCurrentDayMask gm now AND w) \<noteq> 0 \<longleftrightarrow> bit w (nat (tm_wday (gm now)))"
  unfolding getCurrentDayMask_def by (rule day_mask_and_iff)

lemma bit_getScheduleWeekMask:
  "bit (getScheduleWeekMask m) n \<longleftrightarrow> bit m n \<and> n < 8"
proof -
  have "getScheduleWeekMask m = m AND mask 8"
    by (simp add: getScheduleWeekMask_def SCHEDULE_WEEK_MASK_def mask_eq_exp_minus_1)
  then show ?thesis
    by (auto simp add: bit_and_iff bit_mask_iff)
qed

lemma checkScheduleMask_Weekly:
  assumes "getScheduleType m = Weekly"
  shows "checkScheduleMask gm now m
    \<longleftrightarrow> bit m (nat (tm_wday (gm now))) \<and> nat (tm_wday (gm now)) < 8"
  using assms
  by (simp add: checkScheduleMask_def isScheduleFixed_def isScheduleOneShot_def
      isScheduleWeekly_def isScheduleMonthly_def isScheduleYearly_def
      OneShot_def FixedDelta_def Weekly_def Monthly_def Yearly_def
      getCurrentDayMask_and_iff bit_getScheduleWeekMask)

lemma getScheduleDelta_Weekly:
  assumes "getScheduleType m = Weekly"
  shows "getScheduleDelta m = 86400"
  using assms
  by (simp add: getScheduleDelta_def isScheduleInSeconds_def isScheduleInMinutes_def
      isScheduleInHours_def isScheduleInDays_def isScheduleFixed_def isScheduleWeekly_def
      DAYS_def OneShot_def FixedDelta_def Weekly_def)

text \<open>
  Claim C6. For a mask of type Weekly the delta is 86400, and \<open>isActive(now)\<close> is true
  exactly when the bit of the weekday of \<open>now\<close> (bit \<open>i\<close> for weekday \<open>i\<close>, 0 being
  Sunday) is set in the mask, \<open>now\<close> is in the window, and the time since \<open>from\<close> modulo
  86400 is at most the length. So the schedule is not active when that bit is not set, and
  when it is set and \<open>now\<close> is in the window the daily occurrence test decides. The
  weekday is one that \<open>gmtime\<close> can return, 0 to 6, where bit \<open>i\<close> of the mask is bit \<open>i\<close>
  of its low eight bits.
\<close>

theorem C6_weekly:
  assumes "getScheduleType (msk s) = Weekly"
    and "0 \<le> tm_wday (gm now)" and "tm_wday (gm now) \<le> 6"
  shows "getScheduleDelta (msk s) = 86400
    \<and> isActive gm s now =
        Inr (bit (msk s) (nat (tm_wday (gm now))) \<and> checkSchedulePeriod now (frm s) (to s)
             \<and> (now - frm s) mod 86400 \<le> len s)"
proof -
  have d: "getScheduleDelta (msk s) = 86400"
    using assms(1) by (rule getScheduleDelta_Weekly)
  have "nat (tm_wday (gm now)) < 8"
    using assms(3) by linarith
  then have m: "checkScheduleMask gm now (msk s) \<longleftrightarrow> bit (msk s) (nat (tm_wday (gm now)))"
    by (simp add: checkScheduleMask_Weekly [OF assms(1)])
  have "isActive gm s now =
        Inr (bit (msk s) (nat (tm_wday (gm now))) \<and> checkSchedulePeriod now (frm s) (to s)
             \<and> (now - frm s) mod 86400 \<le> len s)"
  proof (cases "checkSchedulePeriod now (frm s) (to s)")
    case True
    then show ?thesis
      using d m elapsed_in_window [OF True] by (simp add: isActive_def)
  next
    case False
    then show ?thesis
      by (simp add: isActive_def)
  qed
  with d show ?thesis
    by simp
qed

lemmas gmtime_utc_defs = gmtime_utc_def gmtime_days_def civil_doe_def civil_yoe_def
  civil_doy_def civil_mp_def civil_mday_def civil_mon_def

text \<open>
  A schedule for Mondays (bit 1) from 2021-01-01 00:00:00 UTC with length 60: active on
  Monday 2021-01-04 at 00:00:30, not active on Tuesday 2021-01-05 at 00:00:30.
\<close>

theorem C6_weekly_witness:
  "getScheduleType 0x08000002 = Weekly
   \<and> 0 \<le> tm_wday (gmtime_utc 1609718430) \<and> tm_wday (gmtime_utc 1609718430) \<le> 6
   \<and> tm_wday (gmtime_utc 1609718430) = 1
   \<and> getScheduleDelta 0x08000002 = 86400
   \<and> isActive gmtime_utc \<lparr>frm = 1609459200, to = 0, len = 60, msk = 0x08000002\<rparr> 1609718430
       = Inr True
   \<and> tm_wday (gmtime_utc 1609804830) = 2
   \<and> isActive gmtime_utc \<lparr>frm = 1609459200, to = 0, len = 60, msk = 0x08000002\<rparr> 1609804830
       = Inr False"
proof -
  have t: "getScheduleType (msk \<lparr>frm = 1609459200, to = 0, len = 60, msk = 0x08000002\<rparr>) = Weekly"
    by (simp add: field_defs Weekly_def)
  have mon: "tm_wday (gmtime_utc 1609718430) = 1"
    by (simp add: gmtime_utc_defs)
  have tue: "tm_wday (gmtime_utc 1609804830) = 2"
    by (simp add: gmtime_utc_defs)
  have p: "checkSchedulePeriod 1609718430 1609459200 0"
    by (simp add: checkSchedulePeriod_def)
  have b: "bit (0x08000002 :: u32) 1" "\<not> bit (0x08000002 :: u32) 2"
    by simp_all
  have e: "((1609718430 :: u32) - 1609459200) mod 86400 \<le> 60"
    by simp
  show ?thesis
    using t mon tue p b e
      C6_weekly [where gm = gmtime_utc and now = 1609718430
        and s = "\<lparr>frm = 1609459200, to = 0, len = 60, msk = 0x08000002\<rparr>"]
      C6_weekly [where gm = gmtime_utc and now = 1609804830
        and s = "\<lparr>frm = 1609459200, to = 0, len = 60, msk = 0x08000002\<rparr>"]
    by simp
qed

section \<open>The local and the cloud value\<close>

lemma Schedule_neq_iff: "Schedule_neq a b \<longleftrightarrow> a \<noteq> b"
  by (cases a, cases b) (simp add: Schedule_neq_def Schedule_eq_def)

lemma Schedule_assign_eq: "Schedule_assign a b = b"
  by (cases a, cases b) (simp add: Schedule_assign_def)

lemma local_value_assign: "local_value (CloudSchedule_assign u c s) = s"
  by (cases s, cases "local_value c") (simp add: CloudSchedule_assign_def Let_def)

lemma cloud_value_assign: "cloud_value (CloudSchedule_assign u c s) = cloud_value c"
  by (simp add: CloudSchedule_assign_def Let_def)

lemma property_assign: "property (CloudSchedule_assign u c s) = u (property c)"
  by (simp add: CloudSchedule_assign_def Let_def)

lemma not_divergent_after_push: "\<not> isDifferentFromCloud (fromLocalToCloud c)"
  by (simp add: isDifferentFromCloud_def fromLocalToCloud_def Schedule_neq_iff
      Schedule_assign_eq)

text \<open>
  Claim C7, as amended. On a tracker constructed with the descriptor \<open>d\<close> on both sides,
  \<open>isDifferentFromCloud\<close> is false. After the assignment of a descriptor \<open>d'\<close> it is true
  exactly when \<open>d'\<close> differs from \<open>d\<close> in some field. After \<open>fromLocalToCloud\<close> it is
  false again, and it is false right after \<open>fromLocalToCloud\<close> on every tracker state.
\<close>

theorem C7_divergence:
  "\<not> isDifferentFromCloud (CloudSchedule_init p f t l m)
   \<and> isDifferentFromCloud (CloudSchedule_assign u (CloudSchedule_init p f t l m) d)
       = (d \<noteq> \<lparr>frm = f, to = t, len = l, msk = m\<rparr>)
   \<and> \<not> isDifferentFromCloud
         (fromLocalToCloud (CloudSchedule_assign u (CloudSchedule_init p f t l m) d))
   \<and> \<not> isDifferentFromCloud (fromLocalToCloud c)"
proof -
  have "\<not> isDifferentFromCloud (CloudSchedule_init p f t l m)"
    by (simp add: isDifferentFromCloud_def CloudSchedule_init_def Schedule_neq_iff)
  moreover have "isDifferentFromCloud (CloudSchedule_assign u (CloudSchedule_init p f t l m) d)
       = (d \<noteq> \<lparr>frm = f, to = t, len = l, msk = m\<rparr>)"
    by (simp add: isDifferentFromCloud_def Schedule_neq_iff local_value_assign
        cloud_value_assign CloudSchedule_init_def)
  ultimately show ?thesis
    by (simp add: not_divergent_after_push)
qed

text \<open>
  Claim C7 as stated assigns the descriptor \<open>d\<close> the tracker was constructed with: then
  the local and the cloud value are still equal and \<open>isDifferentFromCloud\<close> stays false.
\<close>

theorem C7_divergence_counterexample:
  "\<not> isDifferentFromCloud (CloudSchedule_init \<lparr>last_local_change_timestamp = 0\<rparr> 1 2 3 4)
   \<and> \<not> isDifferentFromCloud
         (CloudSchedule_assign (updateLocalTimestamp 5)
            (CloudSchedule_init \<lparr>last_local_change_timestamp = 0\<rparr> 1 2 3 4)
            \<lparr>frm = 1, to = 2, len = 3, msk = 4\<rparr>)"
  by (simp add: isDifferentFromCloud_def CloudSchedule_assign_def CloudSchedule_init_def
      Schedule_neq_def Schedule_eq_def Let_def)

text \<open>
  Claim C8. \<open>appendAttributesToCloud\<close> appends the four fields of the local value in the
  order \<open>frm\<close>, \<open>to\<close>, \<open>len\<close>, \<open>msk\<close>, and \<open>setAttributesFromCloud\<close> reads four scalars
  into the cloud value in the same order. So the sequence that serialising the local value
  of \<open>c\<close> produces, read back into any tracker \<open>c'\<close> (a fresh one in particular), gives a
  cloud value equal to the local value of \<open>c\<close> in all four fields. The outbound and the
  inbound sequence are the ones of \<open>appendScalar\<close> and \<open>readScalar\<close>.
\<close>

theorem C8_serialize_round_trip:
  "appendAttributesToCloud appendScalar c out
     = (CborNoError, out @ [frm (local_value c), to (local_value c), len (local_value c),
                            msk (local_value c)])
   \<and> setAttributesFromCloud readScalar c' (v1 # v2 # v3 # v4 # rest)
     = (c'\<lparr>cloud_value := \<lparr>frm = v1, to = v2, len = v3, msk = v4\<rparr>\<rparr>, rest)
   \<and> setAttributesFromCloud readScalar c'
        (snd (appendAttributesToCloud appendScalar c []))
     = (c'\<lparr>cloud_value := local_value c\<rparr>, [])"
proof -
  have a: "appendAttributesToCloud appendScalar c out
     = (CborNoError, out @ [frm (local_value c), to (local_value c), len (local_value c),
                            msk (local_value c)])" for out
    by (simp add: appendAttributesToCloud_def appendScalar_def)
  have s: "setAttributesFromCloud readScalar c' (v1 # v2 # v3 # v4 # rest)
     = (c'\<lparr>cloud_value := \<lparr>frm = v1, to = v2, len = v3, msk = v4\<rparr>\<rparr>, rest)"
    for v1 v2 v3 v4 rest
    by (cases "cloud_value c'") (simp add: setAttributesFromCloud_def readScalar_def)
  have "setAttributesFromCloud readScalar c'
        (snd (appendAttributesToCloud appendScalar c []))
     = (c'\<lparr>cloud_value := local_value c\<rparr>, [])"
    by (cases "local_value c") (simp add: a s)
  with a s show ?thesis
    by simp
qed

text \<open>
  Claim C9. The assignment of a descriptor \<open>s\<close> to a tracker overwrites the four fields of
  the local value with those of \<open>s\<close>, leaves the cloud value as it was, and applies
  \<open>updateLocalTimestamp\<close> once to the base class; with the timestamp of the spec the
  time of the last local change is then the current time.
\<close>

theorem C9_assign_frame:
  "local_value (CloudSchedule_assign u c s) = s
   \<and> frm (local_value (CloudSchedule_assign u c s)) = frm s
   \<and> to (local_value (CloudSchedule_assign u c s)) = to s
   \<and> len (local_value (CloudSchedule_assign u c s)) = len s
   \<and> msk (local_value (CloudSchedule_assign u c s)) = msk s
   \<and> cloud_value (CloudSchedule_assign u c s) = cloud_value c
   \<and> property (CloudSchedule_assign u c s) = u (property c)
   \<and> last_local_change_timestamp
        (property (CloudSchedule_assign (updateLocalTimestamp t) c' s)) = t"
  by (simp add: local_value_assign cloud_value_assign property_assign
      updateLocalTimestamp_def)

end
